theory Spec2Isabelle
  imports Complex_Main
begin

section \<open>JavaScript values used by the waste-data pipeline\<close>

text \<open>
  The pipeline of \<^verbatim>\<open>src/utils/dataProcessing.js\<close> and \<^verbatim>\<open>src/data/wasteData.js\<close> handles three
  kinds of primitive in its numeric fields: \<^verbatim>\<open>null\<close>, \<^verbatim>\<open>NaN\<close> and a number. Numbers are
  modelled as exact rationals: the rounding of IEEE doubles, the literal \<^verbatim>\<open>Infinity\<close> and
  overflow are outside the model.
\<close>

datatype jsval = Null | NaN | Num rat

text \<open>Truthiness of a value in a condition (\<^verbatim>\<open>x ? a : b\<close>, \<^verbatim>\<open>x && y\<close>).\<close>

fun truthy :: "jsval \<Rightarrow> bool" where
  "truthy Null = False"
| "truthy NaN = False"
| "truthy (Num q) = (q \<noteq> 0)"

text \<open>The strict equality \<^verbatim>\<open>a === b\<close>: \<^verbatim>\<open>NaN\<close> equals nothing, not even itself.\<close>

fun strict_eq :: "jsval \<Rightarrow> jsval \<Rightarrow> bool" where
  "strict_eq (Num a) (Num b) = (a = b)"
| "strict_eq Null Null = True"
| "strict_eq _ _ = False"

text \<open>The comparison \<^verbatim>\<open>x > 0\<close>: \<^verbatim>\<open>null\<close> converts to 0 and \<^verbatim>\<open>NaN\<close> compares false.\<close>

fun gt0 :: "jsval \<Rightarrow> bool" where
  "gt0 (Num q) = (0 < q)"
| "gt0 _ = False"

text \<open>The number a value stands for where the code only adds it up (\<^verbatim>\<open>null\<close> is 0; a
  \<^verbatim>\<open>NaN\<close> is skipped by \<^verbatim>\<open>d3.sum\<close>, which is adding 0).\<close>

fun num_of :: "jsval \<Rightarrow> rat" where
  "num_of (Num q) = q"
| "num_of _ = 0"

subsection \<open>\<^verbatim>\<open>parseInt\<close> and \<^verbatim>\<open>parseFloat\<close>\<close>

text \<open>The white space both functions skip, as far as it is ASCII.\<close>

definition js_whitespace :: "char \<Rightarrow> bool" where
  "js_whitespace c = (of_char c \<in> {9, 10, 11, 12, 13, 32 :: nat})"

definition is_digit :: "char \<Rightarrow> bool" where
  "is_digit c = (48 \<le> (of_char c :: nat) \<and> (of_char c :: nat) \<le> 57)"

text \<open>The value of a character as a digit of a radix up to 36 (36 when it is none).\<close>

definition digit_val :: "char \<Rightarrow> nat" where
  "digit_val c =
     (let n = (of_char c :: nat) in
      if 48 \<le> n \<and> n \<le> 57 then n - 48
      else if 97 \<le> n \<and> n \<le> 122 then n - 87
      else if 65 \<le> n \<and> n \<le> 90 then n - 55
      else 36)"

definition digits_value :: "nat \<Rightarrow> string \<Rightarrow> nat" where
  "digits_value radix ds = foldl (\<lambda>acc c. acc * radix + digit_val c) 0 ds"

text \<open>An optional sign in front of a numeral: the factor and the rest of the string.\<close>

definition take_sign :: "string \<Rightarrow> int \<times> string" where
  "take_sign s =
     (case s of
        [] \<Rightarrow> (1, [])
      | c # cs \<Rightarrow> if c = CHR ''-'' then (-1, cs) else if c = CHR ''+'' then (1, cs) else (1, s))"

text \<open>\<^verbatim>\<open>parseInt(s)\<close> with no radix argument: leading white space, a sign, a \<^verbatim>\<open>0x\<close> prefix
  selecting radix 16, then the longest run of digits; \<^verbatim>\<open>NaN\<close> when that run is empty.\<close>

definition parseInt :: "string \<Rightarrow> jsval" where
  "parseInt s =
     (let (sign, s2) = take_sign (dropWhile js_whitespace s);
          (radix, s3) = (if take 2 s2 = ''0x'' \<or> take 2 s2 = ''0X'' then (16, drop 2 s2) else (10, s2));
          ds = takeWhile (\<lambda>c. digit_val c < radix) s3
      in if ds = [] then NaN else Num (of_int (sign * int (digits_value radix ds))))"

text \<open>The exponent part of a decimal literal: \<^verbatim>\<open>e\<close> or \<^verbatim>\<open>E\<close>, an optional sign and at least
  one digit; anything else is not part of the numeral and counts as exponent 0.\<close>

definition exponent_of :: "string \<Rightarrow> int" where
  "exponent_of s =
     (case s of
        [] \<Rightarrow> 0
      | c # cs \<Rightarrow>
          if c = CHR ''e'' \<or> c = CHR ''E'' then
            (let (sign, r) = take_sign cs; ds = takeWhile is_digit r
             in if ds = [] then 0 else sign * int (digits_value 10 ds))
          else 0)"

definition pow10 :: "int \<Rightarrow> rat" where
  "pow10 e = (if 0 \<le> e then 10 ^ nat e else 1 / 10 ^ nat (- e))"

text \<open>\<^verbatim>\<open>parseFloat(s)\<close>: leading white space, a sign, digits, an optional fraction and an
  optional exponent; \<^verbatim>\<open>NaN\<close> when there is no digit before or after the point. What follows
  the numeral is ignored. The literal \<^verbatim>\<open>Infinity\<close>, which \<^verbatim>\<open>parseFloat\<close> also reads, has no
  value in \<^typ>\<open>jsval\<close> and is not covered.\<close>

definition parseFloat :: "string \<Rightarrow> jsval" where
  "parseFloat s =
     (let (sign, s2) = take_sign (dropWhile js_whitespace s);
          ip = takeWhile is_digit s2;
          r1 = dropWhile is_digit s2;
          hasPoint = (r1 \<noteq> [] \<and> hd r1 = CHR ''.'');
          fp = (if hasPoint then takeWhile is_digit (tl r1) else []);
          r2 = (if hasPoint then dropWhile is_digit (tl r1) else r1)
      in if ip = [] \<and> fp = [] then NaN
         else Num (of_int sign
                   * (of_nat (digits_value 10 ip) + of_nat (digits_value 10 fp) / 10 ^ length fp)
                   * pow10 (exponent_of r2)))"

text \<open>\<^verbatim>\<open>s.replace(/,/g, '')\<close>.\<close>

definition remove_commas :: "string \<Rightarrow> string" where
  "remove_commas s = filter (\<lambda>c. c \<noteq> CHR '','') s"

section \<open>The helpers of the d3 library the pipeline calls\<close>

text \<open>\<^verbatim>\<open>d3.sum(values, valueof)\<close> starts from 0 and adds every value that is truthy as a
  number, so a \<^verbatim>\<open>NaN\<close>, a \<^verbatim>\<open>null\<close> and a 0 are passed over.\<close>

definition d3_sum :: "('a \<Rightarrow> jsval) \<Rightarrow> 'a list \<Rightarrow> rat" where
  "d3_sum valueof values =
     foldl (\<lambda>s v. case valueof v of Num q \<Rightarrow> (if q \<noteq> 0 then s + q else s) | _ \<Rightarrow> s) 0 values"

text \<open>\<^verbatim>\<open>d3.group(values, key)\<close> builds a Map from key to the array of the values with that key:
  a key seen for the first time is appended to the Map, a value of a known key is pushed on
  that key's array. The Map is the list of its entries in insertion order.\<close>

fun group_add :: "'k \<Rightarrow> 'a \<Rightarrow> ('k \<times> 'a list) list \<Rightarrow> ('k \<times> 'a list) list" where
  "group_add k v [] = [(k, [v])]"
| "group_add k v ((k', vs) # g) =
     (if k' = k then (k', vs @ [v]) # g else (k', vs) # group_add k v g)"

definition d3_group :: "('a \<Rightarrow> 'k) \<Rightarrow> 'a list \<Rightarrow> ('k \<times> 'a list) list" where
  "d3_group key values = foldl (\<lambda>g v. group_add (key v) v g) [] values"

text \<open>\<^verbatim>\<open>d3.rollup(values, reduce, key)\<close>: the groups of \<^verbatim>\<open>d3.group\<close>, each reduced.\<close>

definition d3_rollup :: "('a list \<Rightarrow> 'b) \<Rightarrow> ('a \<Rightarrow> 'k) \<Rightarrow> 'a list \<Rightarrow> ('k \<times> 'b) list" where
  "d3_rollup reduce key values = map (\<lambda>(k, vs). (k, reduce vs)) (d3_group key values)"

text \<open>\<^verbatim>\<open>Array.from(new Set(xs))\<close>: the distinct elements in the order of their first
  appearance.\<close>

definition set_add :: "'a \<Rightarrow> 'a list \<Rightarrow> 'a list" where
  "set_add x s = (if x \<in> set s then s else s @ [x])"

definition array_from_set :: "'a list \<Rightarrow> 'a list" where
  "array_from_set xs = foldl (\<lambda>s x. set_add x s) [] xs"

text \<open>\<^verbatim>\<open>xs.findIndex(p)\<close>: the index of the first element satisfying \<^verbatim>\<open>p\<close>, or -1.\<close>

fun findIndex :: "('a \<Rightarrow> bool) \<Rightarrow> 'a list \<Rightarrow> int" where
  "findIndex p [] = -1"
| "findIndex p (x # xs) =
     (if p x then 0 else (let i = findIndex p xs in if i < 0 then -1 else i + 1))"

section \<open>The Loader\<close>

text \<open>A row of \<^verbatim>\<open>d3.csv\<close> maps a header name to the string of its cell; a column the file
  does not have is absent from the row.\<close>

type_synonym row = "string \<rightharpoonup> string"

text \<open>A parsed record. The fields \<^verbatim>\<open>Day\<close>, \<^verbatim>\<open>Vendor\<close>, \<^verbatim>\<open>DateUpdated\<close> and \<^verbatim>\<open>Cost\<close> are
  optional because the entries of \<^verbatim>\<open>predefinedData\<close> do not have them.\<close>

record WasteRecord =
  Year :: jsval
  Month :: string
  Day :: "string option"
  Category :: string
  MaterialType :: string
  Weight :: jsval
  Vendor :: "string option"
  DateUpdated :: "string option"
  Cost :: "string option"

text \<open>\<^verbatim>\<open>row[h] || ''\<close>.\<close>

definition or_empty :: "string option \<Rightarrow> string" where
  "or_empty c = (case c of None \<Rightarrow> '''' | Some s \<Rightarrow> s)"

text \<open>\<^verbatim>\<open>row.Year ? parseInt(row.Year) : null\<close>: an absent or empty cell is falsy.\<close>

definition parseYear :: "string option \<Rightarrow> jsval" where
  "parseYear c = (case c of None \<Rightarrow> Null | Some s \<Rightarrow> if s = '''' then Null else parseInt s)"

text \<open>The callback of \<^verbatim>\<open>csvData.map\<close> in \<^verbatim>\<open>loadWasteData\<close> (dataProcessing.js).\<close>

definition parseRow :: "row \<Rightarrow> WasteRecord" where
  "parseRow r =
     (let weightStr = (case r ''Weight (lbs)'' of None \<Rightarrow> ''0'' | Some s \<Rightarrow> if s = '''' then ''0'' else s);
          weight = parseFloat (remove_commas weightStr)
      in \<lparr> Year = parseYear (r ''Year''),
           Month = or_empty (r ''Month''),
           Day = Some (or_empty (r ''Day'')),
           Category = or_empty (r ''Category''),
           MaterialType = or_empty (r ''Material Type''),
           Weight = (if weight = NaN then Num 0 else weight),
           Vendor = Some (or_empty (r ''Vendor'')),
           DateUpdated = Some (or_empty (r ''Date Updated'')),
           Cost = Some (or_empty (r ''Cost'')) \<rparr>)"

text \<open>The callback of \<^verbatim>\<open>.filter\<close>: \<^verbatim>\<open>d.Year && d.Category && d.Weight > 0\<close>.\<close>

definition validEntry :: "WasteRecord \<Rightarrow> bool" where
  "validEntry d = (truthy (Year d) \<and> Category d \<noteq> '''' \<and> gt0 (Weight d))"

text \<open>The outcome of \<^verbatim>\<open>await d3.csv(...)\<close>: the rows, or the exception of a file that cannot
  be fetched or parsed.\<close>

datatype error = LoadError

text \<open>\<^verbatim>\<open>loadWasteData\<close>: the \<^verbatim>\<open>catch\<close> branch logs and returns the empty array.\<close>

definition loadWasteData :: "error + row list \<Rightarrow> WasteRecord list" where
  "loadWasteData csv =
     (case csv of
        Inl e \<Rightarrow> []
      | Inr csvData \<Rightarrow> filter validEntry (map parseRow csvData))"

section \<open>The module \<^verbatim>\<open>src/data/wasteData.js\<close>\<close>

text \<open>\<^verbatim>\<open>parseWeight\<close>: 0 for an absent or empty cell, else \<^verbatim>\<open>parseFloat\<close> of the string
  without its commas (which may be \<^verbatim>\<open>NaN\<close>).\<close>

definition parseWeight :: "string option \<Rightarrow> jsval" where
  "parseWeight weightStr =
     (case weightStr of
        None \<Rightarrow> Num 0
      | Some s \<Rightarrow> if s = '''' then Num 0 else parseFloat (remove_commas s))"

text \<open>The callback of \<^verbatim>\<open>csvData.map\<close> in the module-level load.\<close>

definition parseRowModule :: "row \<Rightarrow> WasteRecord" where
  "parseRowModule r =
     \<lparr> Year = parseYear (r ''Year''),
       Month = or_empty (r ''Month''),
       Day = Some (or_empty (r ''Day'')),
       Category = or_empty (r ''Category''),
       MaterialType = or_empty (r ''Material Type''),
       Weight = parseWeight (r ''Weight (lbs)''),
       Vendor = Some (or_empty (r ''Vendor'')),
       DateUpdated = Some (or_empty (r ''Date Updated'')),
       Cost = Some (or_empty (r ''Cost'')) \<rparr>"

text \<open>The value the \<^verbatim>\<open>.then\<close> callback assigns to the module variable \<^verbatim>\<open>wasteData\<close>.\<close>

definition csvLoaded :: "row list \<Rightarrow> WasteRecord list" where
  "csvLoaded csvData = filter validEntry (map parseRowModule csvData)"

text \<open>An entry of \<^verbatim>\<open>predefinedData\<close>: year, month, category, material type and weight.\<close>

definition predefined :: "rat \<Rightarrow> string \<Rightarrow> string \<Rightarrow> string \<Rightarrow> rat \<Rightarrow> WasteRecord" where
  "predefined y m c mt w =
     \<lparr> Year = Num y, Month = m, Day = None, Category = c, MaterialType = mt, Weight = Num w,
       Vendor = None, DateUpdated = None, Cost = None \<rparr>"

definition predefinedData :: "WasteRecord list" where
  "predefinedData =
     [ predefined 2024 ''Jan'' ''Landfill'' ''L-Landfill'' 150000,
       predefined 2024 ''Feb'' ''Landfill'' ''L-Landfill'' 140000,
       predefined 2024 ''Mar'' ''Landfill'' ''L-Landfill'' 145000,
       predefined 2024 ''Jan'' ''Recycle'' ''R-Mixed recycling'' 70000,
       predefined 2024 ''Feb'' ''Recycle'' ''R-Mixed recycling'' 75000,
       predefined 2024 ''Mar'' ''Recycle'' ''R-Mixed recycling'' 72000,
       predefined 2024 ''Jan'' ''Compost'' ''C-Organics'' 50000,
       predefined 2024 ''Feb'' ''Compost'' ''C-Organics'' 48000,
       predefined 2024 ''Mar'' ''Compost'' ''C-Organics'' 52000,
       predefined 2024 ''Jun'' ''Landfill'' ''Food Waste'' 60000,
       predefined 2024 ''Jun'' ''Landfill'' ''Paper'' 32000,
       predefined 2024 ''Jun'' ''Landfill'' ''Plastic'' 40000,
       predefined 2024 ''Jun'' ''Landfill'' ''Other'' 28000,
       predefined 2024 ''Jun'' ''Recycle'' ''Paper'' 40000,
       predefined 2024 ''Jun'' ''Recycle'' ''Plastic'' 22000,
       predefined 2024 ''Jun'' ''Recycle'' ''Metal'' 14000,
       predefined 2024 ''Jun'' ''Recycle'' ''Glass'' 12000,
       predefined 2024 ''Jun'' ''Compost'' ''Food Waste'' 55000,
       predefined 2024 ''Jun'' ''Compost'' ''Yard Waste'' 28000,
       predefined 2024 ''Jun'' ''Compost'' ''Other Organics'' 18000,
       predefined 2024 ''Jun'' ''Landfill'' ''BOH Food Waste'' 35000,
       predefined 2024 ''Jun'' ''Landfill'' ''FOH Food Waste'' 28000,
       predefined 2024 ''Jun'' ''Landfill'' ''Recyclable Beverage Containers'' 8000,
       predefined 2024 ''Jun'' ''Landfill'' ''Compostable Serviceware'' 15000,
       predefined 2024 ''Jun'' ''Landfill'' ''Misc Compost'' 10000,
       predefined 2024 ''Jun'' ''Landfill'' ''Misc Recycling'' 12000,
       predefined 2024 ''Jun'' ''Landfill'' ''Liquids'' 5000,
       predefined 2024 ''Jun'' ''Landfill'' ''Surplus/Expired Food'' 15000,
       predefined 2024 ''Jun'' ''Landfill'' ''Misc Landfill'' 25000 ]"

text \<open>
  The state of the module while it is evaluated: the variable \<^verbatim>\<open>wasteData\<close>, the outcome of
  the \<^verbatim>\<open>d3.csv\<close> promise whose \<^verbatim>\<open>.then\<close> callback is registered and has not run, and the value
  bound to the default export. A promise callback is a job of its own: it runs only after
  the module body has run to its end.
\<close>

record module_state =
  wasteData :: "WasteRecord list"
  pending :: "(error + row list) option"
  default_export :: "WasteRecord list option"

text \<open>The module body, statement by statement: \<^verbatim>\<open>let wasteData = []\<close>; the call
  \<^verbatim>\<open>d3.csv(...).then(...)\<close>, which registers the callback; the expression of
  \<^verbatim>\<open>export default\<close>, evaluated once, here.\<close>

definition module_body :: "error + row list \<Rightarrow> module_state" where
  "module_body csv =
     (let s0 = \<lparr> wasteData = [], pending = None, default_export = None \<rparr>;
          s1 = s0 \<lparr> pending := Some csv \<rparr>;
          s2 = s1 \<lparr> default_export :=
                      Some (if length (wasteData s1) > 0 then wasteData s1 else predefinedData) \<rparr>
      in s2)"

text \<open>The job of the promise: a fulfilled promise runs the callback, which assigns
  \<^verbatim>\<open>wasteData\<close>; a rejected one has no handler and changes nothing.\<close>

definition run_pending :: "module_state \<Rightarrow> module_state" where
  "run_pending s =
     (case pending s of
        None \<Rightarrow> s
      | Some (Inl e) \<Rightarrow> s \<lparr> pending := None \<rparr>
      | Some (Inr csvData) \<Rightarrow> s \<lparr> wasteData := csvLoaded csvData, pending := None \<rparr>)"

definition module_eval :: "error + row list \<Rightarrow> module_state" where
  "module_eval csv = run_pending (module_body csv)"

section \<open>The shape builders of \<^verbatim>\<open>src/utils/dataProcessing.js\<close>\<close>

text \<open>The year filter shared by the builders:
  \<^verbatim>\<open>year ? data.filter(d => d.Year === year) : data\<close>. An omitted year is \<^verbatim>\<open>undefined\<close>,
  which is falsy like \<^verbatim>\<open>null\<close>; so is the year 0.\<close>

definition yearFilter :: "jsval \<Rightarrow> WasteRecord list \<Rightarrow> WasteRecord list" where
  "yearFilter yr data = (if truthy yr then filter (\<lambda>d. strict_eq (Year d) yr) data else data)"

subsection \<open>Time series\<close>

record YearTotal =
  year :: jsval
  landfill :: rat
  recycling :: rat
  compost :: rat
  total :: rat

text \<open>Reading a property of the object literal \<^verbatim>\<open>{ year, landfill, recycling, compost, total }\<close>
  by its key: a key the literal does not have is absent.\<close>

definition YearTotal_get :: "YearTotal \<Rightarrow> string \<Rightarrow> jsval option" where
  "YearTotal_get t k =
     (if k = ''year'' then Some (year t)
      else if k = ''landfill'' then Some (Num (landfill t))
      else if k = ''recycling'' then Some (Num (recycling t))
      else if k = ''compost'' then Some (Num (compost t))
      else if k = ''total'' then Some (Num (total t))
      else None)"

text \<open>The callback of \<^verbatim>\<open>Array.from(yearGroups, ...)\<close>.\<close>

definition yearTotalOf :: "jsval \<times> WasteRecord list \<Rightarrow> YearTotal" where
  "yearTotalOf = (\<lambda>(y, yearData).
     (let l = d3_sum Weight (filter (\<lambda>d. Category d = ''Landfill'') yearData);
          r = d3_sum Weight (filter (\<lambda>d. Category d = ''Recycle'') yearData);
          c = d3_sum Weight (filter (\<lambda>d. Category d = ''Compost'') yearData)
      in \<lparr> year = y, landfill = l, recycling = r, compost = c, total = l + r + c \<rparr>))"

text \<open>\<^verbatim>\<open>prepareTimeSeriesData\<close>. The comparator \<^verbatim>\<open>a.year - b.year\<close> of the stable
  \<^verbatim>\<open>Array.prototype.sort\<close> orders entries whose years are numbers ascending.\<close>

definition prepareTimeSeriesData :: "WasteRecord list \<Rightarrow> YearTotal list" where
  "prepareTimeSeriesData data =
     sort_key (\<lambda>t. num_of (year t)) (map yearTotalOf (d3_group Year data))"

subsection \<open>Network\<close>

record Node =
  name :: string
  type :: string

record Link =
  source :: int
  target :: int
  link_value :: jsval
  sourceName :: string
  targetName :: string

record FlowGraph =
  nodes :: "Node list"
  links :: "Link list"

text \<open>\<^verbatim>\<open>d.Category === 'Recycle' ? 'Recycling' : d.Category\<close>.\<close>

definition categoryName :: "WasteRecord \<Rightarrow> string" where
  "categoryName d = (if Category d = ''Recycle'' then ''Recycling'' else Category d)"

text \<open>The callback of \<^verbatim>\<open>yearData.map\<close> that makes a record's link.\<close>

definition linkOf :: "Node list \<Rightarrow> WasteRecord \<Rightarrow> Link" where
  "linkOf ns d =
     (let sn = MaterialType d;
          tn = categoryName d
      in \<lparr> source = findIndex (\<lambda>node. name node = sn) ns,
           target = findIndex (\<lambda>node. name node = tn) ns,
           link_value = Weight d,
           sourceName = sn,
           targetName = tn \<rparr>)"

definition prepareNetworkData :: "WasteRecord list \<Rightarrow> jsval \<Rightarrow> FlowGraph" where
  "prepareNetworkData data yr =
     (let yearData = yearFilter yr data in
      if length yearData = 0 then \<lparr> nodes = [], links = [] \<rparr>
      else
        (let categories = array_from_set (map categoryName yearData);
             materialTypes = array_from_set (map MaterialType yearData);
             ns = map (\<lambda>n. \<lparr> name = n, type = ''category'' \<rparr>) categories
                  @ map (\<lambda>n. \<lparr> name = n, type = ''material'' \<rparr>) materialTypes
         in \<lparr> nodes = ns, links = map (linkOf ns) yearData \<rparr>))"

subsection \<open>Composition\<close>

datatype CompositionNode =
  Leaf (leaf_name: string) (leaf_value: rat)
| Branch (branch_name: string) (children: "CompositionNode list")

text \<open>The \<^verbatim>\<open>d3.rollup\<close> call of one category: the summed weight of each material type of
  the records whose category is exactly the given string.\<close>

definition categoryRollup :: "string \<Rightarrow> WasteRecord list \<Rightarrow> (string \<times> rat) list" where
  "categoryRollup c yearData =
     d3_rollup (d3_sum Weight) MaterialType (filter (\<lambda>d. Category d = c) yearData)"

text \<open>The callback of the final \<^verbatim>\<open>.map\<close>: the entries of the rollup as leaves, those with a
  value above 0, sorted descending by value (the stable sort with \<^verbatim>\<open>b.value - a.value\<close>).\<close>

definition categoryNode :: "string \<times> (string \<times> rat) list \<Rightarrow> CompositionNode" where
  "categoryNode = (\<lambda>(nm, rolled).
     Branch nm (sort_key (\<lambda>item. - leaf_value item)
                  (filter (\<lambda>item. leaf_value item > 0) (map (\<lambda>(n, v). Leaf n v) rolled))))"

definition prepareCompositionData :: "WasteRecord list \<Rightarrow> jsval \<Rightarrow> CompositionNode" where
  "prepareCompositionData data yr =
     (let yearData = yearFilter yr data in
      Branch ''Total Waste''
        (map categoryNode
           [ (''Landfill'', categoryRollup ''Landfill'' yearData),
             (''Recycling'', categoryRollup ''Recycle'' yearData),
             (''Compost'', categoryRollup ''Compost'' yearData) ]))"


subsection \<open>Distribution (top materials)\<close>

record MaterialTotal =
  material :: string
  totalWeight :: rat
  categories :: "(string \<times> rat) list"

text \<open>The callback of \<^verbatim>\<open>Array.from(materialGroups, ...)\<close>; \<^verbatim>\<open>material\<close> is the property
  \<^verbatim>\<open>name\<close> of the object.\<close>

definition materialTotalOf :: "string \<times> WasteRecord list \<Rightarrow> MaterialTotal" where
  "materialTotalOf = (\<lambda>(materialType, items).
     \<lparr> material = materialType,
       totalWeight = d3_sum Weight items,
       categories = d3_rollup (d3_sum Weight) Category items \<rparr>)"


section \<open>The quantities the specification speaks of\<close>

text \<open>The sum of the weights of a sequence of records.\<close>

definition weight_total :: "WasteRecord list \<Rightarrow> rat" where
  "weight_total ds = sum_list (map (\<lambda>d. num_of (Weight d)) ds)"

text \<open>The distinct elements of a sequence in the order of their first appearance.\<close>

fun first_appearance :: "'a list \<Rightarrow> 'a list" where
  "first_appearance [] = []"
| "first_appearance (x # xs) = x # filter (\<lambda>y. y \<noteq> x) (first_appearance xs)"


section \<open>Sample inputs\<close>

text \<open>A row of the CSV file with the four columns the pipeline reads.\<close>

definition csv_row :: "string \<Rightarrow> string \<Rightarrow> string \<Rightarrow> string \<Rightarrow> row" where
  "csv_row y c m w =
     [''Year'' \<mapsto> y, ''Category'' \<mapsto> c, ''Material Type'' \<mapsto> m, ''Weight (lbs)'' \<mapsto> w]"

text \<open>The record the Loader makes of such a row when year and weight parse.\<close>

definition loaded :: "rat \<Rightarrow> string \<Rightarrow> string \<Rightarrow> rat \<Rightarrow> WasteRecord" where
  "loaded y c m w =
     \<lparr> Year = Num y, Month = '''', Day = Some '''', Category = c, MaterialType = m,
       Weight = Num w, Vendor = Some '''', DateUpdated = Some '''', Cost = Some '''' \<rparr>"


text \<open>One valid row of the category Reuse.\<close>

definition rows_reuse :: "row list" where
  "rows_reuse = [csv_row ''2024'' ''Reuse'' ''Chairs'' ''500'']"


text \<open>One valid row of the category Landfill.\<close>

definition rows_landfill :: "row list" where
  "rows_landfill = [csv_row ''2024'' ''Landfill'' ''Glass'' ''500'']"

text \<open>Two valid rows of the same material and category.\<close>

definition rows_same_pair :: "row list" where
  "rows_same_pair =
     [ csv_row ''2024'' ''Recycle'' ''Paper'' ''1,000'',
       csv_row ''2024'' ''Recycle'' ''Paper'' ''500'' ]"


section \<open>Properties of the d3 helpers\<close>

text \<open>\<^verbatim>\<open>d3.sum\<close> is the sum of the numbers the values stand for.\<close>

lemma d3_sum_foldl:
  "foldl (\<lambda>s v. case f v of Num q \<Rightarrow> (if q \<noteq> 0 then s + q else s) | _ \<Rightarrow> s) a xs
     = a + sum_list (map (\<lambda>x. num_of (f x)) xs)"
proof (induction xs arbitrary: a)
  case Nil
  show ?case by simp
next
  case (Cons x xs)
  show ?case by (cases "f x") (simp_all add: Cons.IH)
qed

lemma d3_sum_eq: "d3_sum f xs = sum_list (map (\<lambda>x. num_of (f x)) xs)"
  by (simp add: d3_sum_def d3_sum_foldl)

lemma d3_sum_Nil: "d3_sum f [] = 0"
  by (simp add: d3_sum_def)

lemma array_from_set_Nil: "array_from_set [] = []"
  by (simp add: array_from_set_def)

lemma array_from_set_snoc: "array_from_set (xs @ [x]) = set_add x (array_from_set xs)"
  by (simp add: array_from_set_def)

lemma set_array_from_set: "set (array_from_set xs) = set xs"
  by (induction xs rule: rev_induct) (auto simp: array_from_set_Nil array_from_set_snoc set_add_def)

lemma distinct_array_from_set: "distinct (array_from_set xs)"
  by (induction xs rule: rev_induct) (auto simp: array_from_set_Nil array_from_set_snoc set_add_def)

lemma length_array_from_set: "length (array_from_set xs) = card (set xs)"
  by (metis distinct_array_from_set distinct_card set_array_from_set)

lemma d3_group_Nil: "d3_group key [] = []"
  by (simp add: d3_group_def)

lemma d3_group_snoc: "d3_group key (xs @ [x]) = group_add (key x) x (d3_group key xs)"
  by (simp add: d3_group_def)

lemma group_add_known:
  "distinct ks \<Longrightarrow> k \<in> set ks \<Longrightarrow>
   group_add k v (map (\<lambda>j. (j, f j)) ks) = map (\<lambda>j. (j, if j = k then f j @ [v] else f j)) ks"
  by (induction ks) auto

lemma group_add_new:
  "k \<notin> set ks \<Longrightarrow> group_add k v (map (\<lambda>j. (j, f j)) ks) = map (\<lambda>j. (j, f j)) ks @ [(k, [v])]"
  by (induction ks) auto

lemma d3_group_eq:
  "d3_group key xs = map (\<lambda>k. (k, filter (\<lambda>x. key x = k) xs)) (array_from_set (map key xs))"
proof (induction xs rule: rev_induct)
  case Nil
  show ?case by (simp add: d3_group_Nil array_from_set_Nil)
next
  case (snoc x xs)
  let ?ks = "array_from_set (map key xs)"
  show ?case
  proof (cases "key x \<in> set ?ks")
    case True
    have "group_add (key x) x (map (\<lambda>k. (k, filter (\<lambda>y. key y = k) xs)) ?ks)
          = map (\<lambda>j. (j, if j = key x then filter (\<lambda>y. key y = j) xs @ [x] else filter (\<lambda>y. key y = j) xs)) ?ks"
      by (rule group_add_known [OF distinct_array_from_set True])
    also have "\<dots> = map (\<lambda>k. (k, filter (\<lambda>y. key y = k) (xs @ [x]))) ?ks"
      by (rule map_cong) auto
    finally show ?thesis
      using True by (simp add: d3_group_snoc snoc.IH array_from_set_snoc set_add_def)
  next
    case False
    then have none: "filter (\<lambda>y. key y = key x) xs = []"
      by (force simp: set_array_from_set filter_empty_conv image_iff)
    have same: "map (\<lambda>k. (k, filter (\<lambda>y. key y = k) (xs @ [x]))) ?ks = map (\<lambda>k. (k, filter (\<lambda>y. key y = k) xs)) ?ks"
      using False by (intro map_cong) auto
    have last: "filter (\<lambda>y. key y = key x) (xs @ [x]) = [x]"
      by (simp add: none)
    show ?thesis
      using False by (simp add: d3_group_snoc snoc.IH array_from_set_snoc set_add_def group_add_new same last del: filter_append)
  qed
qed

section \<open>The Loader\<close>

lemmas parse_defs = parseFloat_def parseInt_def remove_commas_def take_sign_def js_whitespace_def
  is_digit_def digits_value_def digit_val_def exponent_of_def pow10_def

lemma parseRow_csv_row:
  "parseRow (csv_row y c m w) =
     \<lparr> Year = parseYear (Some y), Month = '''', Day = Some '''', Category = c, MaterialType = m,
       Weight = (if parseFloat (remove_commas (if w = '''' then ''0'' else w)) = NaN then Num 0
                 else parseFloat (remove_commas (if w = '''' then ''0'' else w))),
       Vendor = Some '''', DateUpdated = Some '''', Cost = Some '''' \<rparr>"
  by (simp add: parseRow_def csv_row_def or_empty_def Let_def)

lemma parseYear_2024: "parseYear (Some ''2024'') = Num 2024"
  by (simp add: parseYear_def parse_defs)

lemma parseFloat_1000: "parseFloat (remove_commas ''1,000'') = Num 1000"
  by (simp add: parse_defs)

lemma parseFloat_500: "parseFloat (remove_commas ''500'') = Num 500"
  by (simp add: parse_defs)







text \<open>
  Claim C8. When the source cannot be read or parsed, \<^verbatim>\<open>loadWasteData\<close> returns the empty
  sequence: the exception of \<^verbatim>\<open>d3.csv\<close> ends in the \<^verbatim>\<open>catch\<close> branch and does not reach the
  caller.
\<close>

theorem load_failure_empty: "loadWasteData (Inl e) = []"
  by (simp add: loadWasteData_def)

section \<open>The default export of \<^verbatim>\<open>wasteData.js\<close>\<close>

text \<open>
  Claim C10. Whatever the CSV load yields, the default export of the module is
  \<^verbatim>\<open>predefinedData\<close>: the export expression is evaluated in the module body, where
  \<^verbatim>\<open>wasteData\<close> is still empty, and also after the load has assigned the loaded records to
  \<^verbatim>\<open>wasteData\<close> the exported value is the predefined data.
\<close>

theorem default_export_is_predefined:
  "default_export (module_body csv) = Some predefinedData
   \<and> default_export (module_eval csv) = Some predefinedData
   \<and> wasteData (module_eval (Inr csvData)) = csvLoaded csvData"
  by (cases csv) (simp_all add: module_eval_def module_body_def run_pending_def)

section \<open>The builders on the empty sequence\<close>

text \<open>
  Claim C9, as stated, asks of the Hierarchy Builder a tree with no children. On the empty
  sequence the root returned by \<^verbatim>\<open>prepareCompositionData\<close> has three children.
\<close>

theorem empty_hierarchy_has_children:
  "children (prepareCompositionData [] Null) =
     [Branch ''Landfill'' [], Branch ''Recycling'' [], Branch ''Compost'' []]
   \<and> children (prepareCompositionData [] Null) \<noteq> []"
  by (simp add: prepareCompositionData_def yearFilter_def d3_group_Nil categoryNode_def
      categoryRollup_def d3_rollup_def)

text \<open>
  Claim C9, amended. On the empty sequence, with any year filter, the time-series builder
  returns the empty sequence, the Graph Builder the graph with no nodes and no links, and
  the Hierarchy Builder the root "Total Waste" with its three fixed category nodes
  Landfill, Recycling and Compost, each without children. Each is a value, never
  \<^verbatim>\<open>null\<close> or an exception.
\<close>

theorem empty_input_results:
  "prepareTimeSeriesData [] = []
   \<and> prepareCompositionData [] yr =
       Branch ''Total Waste'' [Branch ''Landfill'' [], Branch ''Recycling'' [], Branch ''Compost'' []]
   \<and> prepareNetworkData [] yr = \<lparr> nodes = [], links = [] \<rparr>"
  by (simp add: prepareTimeSeriesData_def prepareCompositionData_def prepareNetworkData_def
      yearFilter_def d3_group_Nil categoryNode_def categoryRollup_def d3_rollup_def)

section \<open>The time-series builder\<close>

lemma d3_sum_weight_total: "d3_sum Weight ds = weight_total ds"
  by (simp add: d3_sum_eq weight_total_def)

lemma weight_total_Nil: "weight_total [] = 0"
  by (simp add: weight_total_def)

lemma weight_total_Cons: "weight_total (d # ds) = num_of (Weight d) + weight_total ds"
  by (simp add: weight_total_def)


lemma yearTotalOf_fields:
  "year (yearTotalOf (y, ds)) = y"
  "landfill (yearTotalOf (y, ds)) = weight_total (filter (\<lambda>d. Category d = ''Landfill'') ds)"
  "recycling (yearTotalOf (y, ds)) = weight_total (filter (\<lambda>d. Category d = ''Recycle'') ds)"
  "compost (yearTotalOf (y, ds)) = weight_total (filter (\<lambda>d. Category d = ''Compost'') ds)"
  "total (yearTotalOf (y, ds)) =
     weight_total (filter (\<lambda>d. Category d = ''Landfill'') ds)
     + weight_total (filter (\<lambda>d. Category d = ''Recycle'') ds)
     + weight_total (filter (\<lambda>d. Category d = ''Compost'') ds)"
  by (simp_all add: yearTotalOf_def Let_def d3_sum_weight_total)

lemma set_prepareTimeSeriesData:
  "set (prepareTimeSeriesData data) =
     (\<lambda>y. yearTotalOf (y, filter (\<lambda>d. Year d = y) data)) ` Year ` set data"
  by (simp add: prepareTimeSeriesData_def d3_group_eq set_array_from_set image_image)

lemma in_prepareTimeSeriesData:
  "t \<in> set (prepareTimeSeriesData data) \<Longrightarrow>
   year t \<in> Year ` set data \<and> t = yearTotalOf (year t, filter (\<lambda>d. Year d = year t) data)"
  by (auto simp: set_prepareTimeSeriesData yearTotalOf_fields)

lemma filter_year_category:
  "filter (\<lambda>d. Category d = c) (filter (\<lambda>d. Year d = y) data)
     = filter (\<lambda>d. Year d = y \<and> Category d = c) data"
  by (simp add: conj_commute)


lemma load_rows_reuse: "loadWasteData (Inr rows_reuse) = [loaded 2024 ''Reuse'' ''Chairs'' 500]"
  by (simp add: loadWasteData_def rows_reuse_def parseRow_csv_row parseYear_2024
      parseFloat_500 loaded_def validEntry_def)


lemmas builder_eval = d3_group_def d3_sum_def d3_rollup_def array_from_set_def set_add_def
  yearFilter_def weight_total_def Let_def loaded_def

lemma ts_reuse:
  "prepareTimeSeriesData [loaded 2024 ''Reuse'' ''Chairs'' 500] =
     [\<lparr> year = Num 2024, landfill = 0, recycling = 0, compost = 0, total = 0 \<rparr>]"
  by (simp add: prepareTimeSeriesData_def yearTotalOf_def builder_eval)




lemma load_rows_landfill: "loadWasteData (Inr rows_landfill) = [loaded 2024 ''Landfill'' ''Glass'' 500]"
  by (simp add: loadWasteData_def rows_landfill_def parseRow_csv_row parseYear_2024
      parseFloat_500 loaded_def validEntry_def)

lemma ts_landfill:
  "prepareTimeSeriesData [loaded 2024 ''Landfill'' ''Glass'' 500] =
     [\<lparr> year = Num 2024, landfill = 500, recycling = 0, compost = 0, total = 500 \<rparr>]"
  by (simp add: prepareTimeSeriesData_def yearTotalOf_def builder_eval)

lemma weight_total_filter_none:
  "\<forall>d \<in> set ds. \<not> P d \<Longrightarrow> weight_total (filter P ds) = 0"
  by (induction ds) (simp_all add: weight_total_Nil)

text \<open>
  Claim C3, amended. Every entry of the time-series output has the three category totals
  \<^verbatim>\<open>landfill\<close>, \<^verbatim>\<open>recycling\<close> and \<^verbatim>\<open>compost\<close> defined, each the sum of the weights of the
  year's records of the category Landfill, Recycle and Compost, and so 0 when the year has
  no record of that category. The entry has no key \<^verbatim>\<open>reuse\<close>.
\<close>

theorem year_total_keys:
  assumes "t \<in> set (prepareTimeSeriesData data)"
    and "(k, c) \<in> {(''landfill'', ''Landfill''), (''recycling'', ''Recycle''), (''compost'', ''Compost'')}"
  shows "YearTotal_get t k =
           Some (Num (weight_total (filter (\<lambda>d. Year d = year t \<and> Category d = c) data)))
         \<and> ((\<forall>d \<in> set data. Year d = year t \<longrightarrow> Category d \<noteq> c) \<longrightarrow>
              YearTotal_get t k = Some (Num 0))
         \<and> YearTotal_get t ''reuse'' = None"
proof -
  from assms(1) have t: "t = yearTotalOf (year t, filter (\<lambda>d. Year d = year t) data)"
    by (rule in_prepareTimeSeriesData [THEN conjunct2])
  have l: "landfill t = weight_total (filter (\<lambda>d. Year d = year t \<and> Category d = ''Landfill'') data)"
    by (subst t) (simp add: yearTotalOf_fields)
  have r: "recycling t = weight_total (filter (\<lambda>d. Year d = year t \<and> Category d = ''Recycle'') data)"
    by (subst t) (simp add: yearTotalOf_fields)
  have c: "compost t = weight_total (filter (\<lambda>d. Year d = year t \<and> Category d = ''Compost'') data)"
    by (subst t) (simp add: yearTotalOf_fields)
  have get: "YearTotal_get t k =
      Some (Num (weight_total (filter (\<lambda>d. Year d = year t \<and> Category d = c) data)))"
    using assms(2) l r c by (auto simp: YearTotal_get_def)
  have zero: "(\<forall>d \<in> set data. Year d = year t \<longrightarrow> Category d \<noteq> c) \<longrightarrow>
      weight_total (filter (\<lambda>d. Year d = year t \<and> Category d = c) data) = 0"
    by (simp add: weight_total_filter_none weight_total_Nil)
  have reuse: "YearTotal_get t ''reuse'' = None"
    by (simp add: YearTotal_get_def)
  show ?thesis
    using get zero reuse by simp
qed

theorem year_total_keys_witness:
  "hd (prepareTimeSeriesData (loadWasteData (Inr rows_landfill)))
     \<in> set (prepareTimeSeriesData (loadWasteData (Inr rows_landfill)))
   \<and> YearTotal_get (hd (prepareTimeSeriesData (loadWasteData (Inr rows_landfill)))) ''recycling''
       = Some (Num 0)
   \<and> YearTotal_get (hd (prepareTimeSeriesData (loadWasteData (Inr rows_landfill)))) ''reuse'' = None"
  using year_total_keys [of "hd (prepareTimeSeriesData (loadWasteData (Inr rows_landfill)))"
      "loadWasteData (Inr rows_landfill)" "''recycling''" "''Recycle''"]
  by (simp add: load_rows_landfill ts_landfill weight_total_Nil) (simp add: loaded_def)

text \<open>
  Claim C3, as stated, has four category totals in every entry, \<^verbatim>\<open>reuse\<close> among them. The
  entry of a year, here one whose only record is of the category Reuse, has no such key.
\<close>

theorem year_total_no_reuse_key:
  "YearTotal_get (hd (prepareTimeSeriesData (loadWasteData (Inr rows_reuse)))) ''reuse'' = None
   \<and> map Category (loadWasteData (Inr rows_reuse)) = [''Reuse'']
   \<and> map landfill (prepareTimeSeriesData (loadWasteData (Inr rows_reuse))) = [0]"
  by (simp add: load_rows_reuse ts_reuse YearTotal_get_def) (simp add: loaded_def)

section \<open>The Hierarchy Builder\<close>




lemma strict_eq_truthy: "truthy yr \<Longrightarrow> strict_eq v yr = (v = yr)"
  by (cases yr; cases v) simp_all

lemma yearFilter_truthy: "truthy yr \<Longrightarrow> yearFilter yr data = filter (\<lambda>d. Year d = yr) data"
  by (simp add: yearFilter_def strict_eq_truthy)

lemma yearFilter_falsy: "\<not> truthy yr \<Longrightarrow> yearFilter yr data = data"
  by (simp add: yearFilter_def)

lemma yearFilter_subset: "set (yearFilter yr data) \<subseteq> set data"
  by (auto simp: yearFilter_def)











lemma load_rows_same_pair:
  "loadWasteData (Inr rows_same_pair) =
     [loaded 2024 ''Recycle'' ''Paper'' 1000, loaded 2024 ''Recycle'' ''Paper'' 500]"
  by (simp add: loadWasteData_def rows_same_pair_def parseRow_csv_row parseYear_2024
      parseFloat_500 parseFloat_1000 loaded_def validEntry_def)








section \<open>The Graph Builder\<close>

lemma links_prepareNetworkData:
  "\<exists>ns. links (prepareNetworkData data yr) = map (linkOf ns) (yearFilter yr data)"
  by (cases "yearFilter yr data = []") (auto simp: prepareNetworkData_def Let_def)

lemma linkOf_fields:
  "sourceName (linkOf ns d) = MaterialType d"
  "targetName (linkOf ns d) = categoryName d"
  "link_value (linkOf ns d) = Weight d"
  by (simp_all add: linkOf_def Let_def)

lemma link_fields_prepareNetworkData:
  "map (\<lambda>l. (sourceName l, targetName l, link_value l)) (links (prepareNetworkData data yr))
     = map (\<lambda>d. (MaterialType d, categoryName d, Weight d)) (yearFilter yr data)"
proof -
  obtain ns where "links (prepareNetworkData data yr) = map (linkOf ns) (yearFilter yr data)"
    using links_prepareNetworkData by blast
  then show ?thesis
    by (simp add: linkOf_fields o_def)
qed

lemma link_pair_total:
  "sum_list (map (\<lambda>l. num_of (link_value l))
       (filter (\<lambda>l. sourceName l = m \<and> targetName l = c) (map (linkOf ns) ds)))
     = weight_total (filter (\<lambda>d. MaterialType d = m \<and> categoryName d = c) ds)"
  by (induction ds) (simp_all add: linkOf_fields weight_total_Nil weight_total_Cons)

text \<open>
  Claim C5, amended. For a sequence of valid records, the graph of \<^verbatim>\<open>prepareNetworkData\<close> has
  exactly one link per filtered record, in the order of the records: its source name is
  the record's material type, its target name the record's category (Recycle renamed
  Recycling) and its weight the record's weight. Hence the weights of the links of a
  (material, category) pair add up to the sum of the weights of the matching records, and
  no link has a weight that is not above 0. The filtered records are those of the given
  year when it is truthy, all records otherwise.
\<close>

theorem one_link_per_record:
  assumes "list_all validEntry data"
  shows "map (\<lambda>l. (sourceName l, targetName l, link_value l)) (links (prepareNetworkData data yr))
           = map (\<lambda>d. (MaterialType d, categoryName d, Weight d)) (yearFilter yr data)
         \<and> sum_list (map (\<lambda>l. num_of (link_value l))
               (filter (\<lambda>l. sourceName l = m \<and> targetName l = c) (links (prepareNetworkData data yr))))
             = weight_total (filter (\<lambda>d. MaterialType d = m \<and> categoryName d = c) (yearFilter yr data))
         \<and> list_all (\<lambda>l. gt0 (link_value l)) (links (prepareNetworkData data yr))
         \<and> yearFilter yr data = (if truthy yr then filter (\<lambda>d. Year d = yr) data else data)"
proof -
  obtain ns where ls: "links (prepareNetworkData data yr) = map (linkOf ns) (yearFilter yr data)"
    using links_prepareNetworkData by blast
  have v: "\<forall>d \<in> set (yearFilter yr data). validEntry d"
    using assms yearFilter_subset [of yr data] by (auto simp: list_all_iff)
  have pos: "list_all (\<lambda>l. gt0 (link_value l)) (links (prepareNetworkData data yr))"
    using v by (simp add: ls list_all_iff linkOf_fields validEntry_def)
  have yf: "yearFilter yr data = (if truthy yr then filter (\<lambda>d. Year d = yr) data else data)"
    by (simp add: yearFilter_truthy yearFilter_falsy)
  show ?thesis
    using link_fields_prepareNetworkData [of data yr] pos yf
    by (simp only: ls link_pair_total)
qed

lemmas network_eval = prepareNetworkData_def linkOf_def categoryName_def

lemma network_same_pair:
  "prepareNetworkData [loaded 2024 ''Recycle'' ''Paper'' 1000, loaded 2024 ''Recycle'' ''Paper'' 500] Null =
     \<lparr> nodes = [\<lparr> name = ''Recycling'', type = ''category'' \<rparr>, \<lparr> name = ''Paper'', type = ''material'' \<rparr>],
       links = [ \<lparr> source = 1, target = 0, link_value = Num 1000, sourceName = ''Paper'', targetName = ''Recycling'' \<rparr>,
                 \<lparr> source = 1, target = 0, link_value = Num 500, sourceName = ''Paper'', targetName = ''Recycling'' \<rparr> ] \<rparr>"
  by (simp add: network_eval builder_eval)

text \<open>
  Claim C5, as stated, has exactly one link per distinct (material, category) pair, its
  weight the sum of the matching records. Two valid records of the same pair give two
  links, of weight 1000 and 500, and none of weight 1500.
\<close>

theorem two_links_for_one_pair:
  "list_all validEntry (loadWasteData (Inr rows_same_pair))
   \<and> map MaterialType (loadWasteData (Inr rows_same_pair)) = [''Paper'', ''Paper'']
   \<and> map Category (loadWasteData (Inr rows_same_pair)) = [''Recycle'', ''Recycle'']
   \<and> map sourceName (links (prepareNetworkData (loadWasteData (Inr rows_same_pair)) Null)) = [''Paper'', ''Paper'']
   \<and> map targetName (links (prepareNetworkData (loadWasteData (Inr rows_same_pair)) Null)) = [''Recycling'', ''Recycling'']
   \<and> map link_value (links (prepareNetworkData (loadWasteData (Inr rows_same_pair)) Null)) = [Num 1000, Num 500]"
  by (simp add: load_rows_same_pair network_same_pair) (simp add: loaded_def validEntry_def)

theorem one_link_per_record_witness:
  "list_all validEntry (loadWasteData (Inr rows_same_pair))
   \<and> length (links (prepareNetworkData (loadWasteData (Inr rows_same_pair)) Null)) = 2
   \<and> list_all (\<lambda>l. gt0 (link_value l)) (links (prepareNetworkData (loadWasteData (Inr rows_same_pair)) Null))
   \<and> yearFilter Null (loadWasteData (Inr rows_same_pair)) = loadWasteData (Inr rows_same_pair)"
  using one_link_per_record [of "loadWasteData (Inr rows_same_pair)" Null "''Paper''" "''Recycling''"]
  by (simp add: load_rows_same_pair network_same_pair) (simp add: loaded_def validEntry_def)

section \<open>The spelling of the recycling category\<close>
















section \<open>The top materials\<close>

lemma set_first_appearance: "set (first_appearance xs) = set xs"
  by (induction xs) auto

lemma first_appearance_snoc:
  "first_appearance (xs @ [x]) = set_add x (first_appearance xs)"
  by (induction xs) (auto simp: set_add_def set_first_appearance)

lemma array_from_set_first_appearance: "array_from_set xs = first_appearance xs"
  by (induction xs rule: rev_induct)
     (simp_all add: array_from_set_Nil array_from_set_snoc first_appearance_snoc)

lemma materialTotalOf_fields:
  "material (materialTotalOf (m, ds)) = m"
  "totalWeight (materialTotalOf (m, ds)) = weight_total ds"
  by (simp_all add: materialTotalOf_def d3_sum_weight_total)

lemma material_groups:
  "map materialTotalOf (d3_group MaterialType ds)
     = map (\<lambda>m. materialTotalOf (m, filter (\<lambda>d. MaterialType d = m) ds))
         (first_appearance (map MaterialType ds))"
  by (simp add: d3_group_eq array_from_set_first_appearance o_def)

lemma material_groups_material:
  "map material (map materialTotalOf (d3_group MaterialType ds)) = first_appearance (map MaterialType ds)"
  by (simp add: material_groups o_def materialTotalOf_fields)



lemma length_first_appearance: "length (first_appearance xs) = card (set xs)"
  by (simp add: array_from_set_first_appearance [symmetric] length_array_from_set)






end
